theory Spec2Isabelle
  imports Complex_Main "HOL-Library.Sublist" "HOL-Library.AList"
begin

section \<open>Python strings and built-ins used by the sources\<close>

text \<open>
  A Python \<open>str\<close> is a sequence of code points. It is modelled as a \<^typ>\<open>string\<close>
  whose characters are the code points below 256, so \<open>len\<close> is \<^const>\<open>length\<close>.
  \<open>str.isspace\<close>, \<open>str.strip()\<close>, \<open>str.split()\<close> and the regular expression class
  \<open>\s\<close> all use the same whitespace test; on this range it accepts
  U+0009..U+000D, U+001C..U+0020, U+0085 and U+00A0.
\<close>

definition isspace :: "char \<Rightarrow> bool" where
  "isspace c = (let n = (of_char c :: nat) in
     (9 \<le> n \<and> n \<le> 13) \<or> (28 \<le> n \<and> n \<le> 32) \<or> n = 133 \<or> n = 160)"

text \<open>\<open>s.strip()\<close>: leading and trailing whitespace removed.\<close>

definition strip :: "string \<Rightarrow> string" where
  "strip s = rev (dropWhile isspace (rev (dropWhile isspace s)))"

text \<open>\<open>s.split()\<close>: the maximal runs of non-whitespace characters, in order.\<close>

fun split_ws :: "string \<Rightarrow> string \<Rightarrow> string list" where
  "split_ws w [] = (if w = [] then [] else [w])"
| "split_ws w (c # cs) =
     (if isspace c then (if w = [] then split_ws [] cs else w # split_ws [] cs)
      else split_ws (w @ [c]) cs)"

definition py_split :: "string \<Rightarrow> string list" where
  "py_split s = split_ws [] s"

text \<open>\<open>' '.join(ws)\<close>.\<close>

fun join_space :: "string list \<Rightarrow> string" where
  "join_space [] = []"
| "join_space [w] = w"
| "join_space (w # ws) = w @ '' '' @ join_space ws"

text \<open>\<open>s.find(' ')\<close>: the index of the first space, or \<open>-1\<close>.\<close>

fun find_from :: "nat \<Rightarrow> string \<Rightarrow> int" where
  "find_from i [] = - 1"
| "find_from i (c # cs) = (if c = CHR '' '' then int i else find_from (Suc i) cs)"

definition find_space :: "string \<Rightarrow> int" where
  "find_space s = find_from 0 s"

text \<open>
  The slice \<open>s[start:]\<close>: a negative start counts from the end, and every start is
  clamped to the range of the string, so a slice never raises.
\<close>

definition slice_from :: "int \<Rightarrow> 'a list \<Rightarrow> 'a list" where
  "slice_from start xs =
     (let n = int (length xs);
          s = (if start < 0 then max (start + n) 0 else min start n)
      in drop (nat s) xs)"

text \<open>
  \<open>re.split(r'(?<=[.!?])\s+', text)\<close>: a match is a maximal run of whitespace whose
  preceding character is one of \<open>. ! ?\<close> (the run cannot start later, since the
  character before it must not be whitespace). The pieces between the matches are
  returned, the empty ones included.
\<close>

definition sentence_end :: "char \<Rightarrow> bool" where
  "sentence_end c = (c = CHR ''.'' \<or> c = CHR ''!'' \<or> c = CHR ''?'')"

function re_split :: "string \<Rightarrow> string \<Rightarrow> string list" where
  "re_split piece [] = [piece]"
| "re_split piece [c] = [piece @ [c]]"
| "re_split piece (c # d # cs) =
     (if sentence_end c \<and> isspace d
      then (piece @ [c]) # re_split [] (dropWhile isspace cs)
      else re_split (piece @ [c]) (d # cs))"
  by pat_completeness auto
termination
  by (relation "measure (\<lambda>(p, s). length s)")
     (auto simp: less_Suc_eq_le intro: le_trans [OF length_dropWhile_le])

section \<open>The text splitter (\<open>utils/text_splitter.py\<close>)\<close>

text \<open>The two attributes of a \<open>TextSplitter\<close> that the splitting methods read.\<close>

record text_splitter =
  chunk_size :: int
  chunk_overlap :: int

text \<open>
  \<open>x or d\<close> for an optional integer argument: \<open>None\<close> and \<open>0\<close> are falsy and
  give the default.
\<close>

definition py_or :: "int option \<Rightarrow> int \<Rightarrow> int" where
  "py_or a d = (case a of None \<Rightarrow> d | Some v \<Rightarrow> if v = 0 then d else v)"

text \<open>\<open>_split_by_sentences\<close>.\<close>

definition split_by_sentences :: "string \<Rightarrow> string list" where
  "split_by_sentences t =
     map (\<lambda>s. s @ '' '') (filter (\<lambda>s. strip s \<noteq> []) (re_split [] t))"

text \<open>\<open>_get_overlap_text\<close>.\<close>

definition get_overlap_text :: "string \<Rightarrow> int \<Rightarrow> string" where
  "get_overlap_text t overlap_size =
     (if int (length t) \<le> overlap_size then t
      else let overlap_text = slice_from (- overlap_size) t;
               space_idx = find_space overlap_text
           in if space_idx > 0 then slice_from (space_idx + 1) overlap_text
              else overlap_text)"

text \<open>
  \<open>_get_overlap_words\<close>: the loop runs over the reversed word list and stops at the
  first word that does not fit (\<open>break\<close>).
\<close>

fun overlap_words_loop :: "int \<Rightarrow> string list \<Rightarrow> string list \<Rightarrow> int \<Rightarrow> string list" where
  "overlap_words_loop overlap_size [] overlap_words current_length = overlap_words"
| "overlap_words_loop overlap_size (w # ws) overlap_words current_length =
     (if current_length + int (length w) + 1 > overlap_size then overlap_words
      else overlap_words_loop overlap_size ws (w # overlap_words)
             (current_length + int (length w) + 1))"

definition get_overlap_words :: "string list \<Rightarrow> int \<Rightarrow> string list" where
  "get_overlap_words ws overlap_size =
     (if ws = [] then [] else overlap_words_loop overlap_size (rev ws) [] 0)"

text \<open>
  \<open>_split_long_sentence\<close>: the loop state is the pair of the chunks emitted so far and
  the words of the chunk being filled.
\<close>

definition long_sentence_step ::
  "int \<Rightarrow> int \<Rightarrow> string list \<times> string list \<Rightarrow> string \<Rightarrow> string list \<times> string list" where
  "long_sentence_step csize coverlap st w =
     (let chunks = fst st; current_chunk = snd st;
          current_length = (\<Sum>x\<leftarrow>current_chunk. int (length x) + 1)
      in if current_length + int (length w) > csize
         then (if current_chunk \<noteq> []
               then (chunks @ [join_space current_chunk],
                     get_overlap_words current_chunk coverlap @ [w])
               else (chunks @ [w], []))
         else (chunks, current_chunk @ [w]))"

definition split_long_sentence :: "string \<Rightarrow> int \<Rightarrow> int \<Rightarrow> string list" where
  "split_long_sentence sentence csize coverlap =
     (let st = foldl (long_sentence_step csize coverlap) ([], []) (py_split sentence);
          chunks = fst st; current_chunk = snd st
      in if current_chunk \<noteq> [] then chunks @ [join_space current_chunk] else chunks)"

text \<open>
  \<open>split_text\<close>: the body of the \<open>for sentence in sentences\<close> loop, on the pair of the
  chunks emitted so far and the running buffer \<open>current_chunk\<close>.
\<close>

definition split_text_step ::
  "int \<Rightarrow> int \<Rightarrow> string list \<times> string \<Rightarrow> string \<Rightarrow> string list \<times> string" where
  "split_text_step csize coverlap st sentence =
     (let chunks = fst st; current_chunk = snd st
      in if int (length current_chunk) + int (length sentence) > csize
         then (if current_chunk \<noteq> []
               then (chunks @ [strip current_chunk],
                     get_overlap_text current_chunk coverlap @ sentence)
               else (let sentence_chunks = split_long_sentence sentence csize coverlap
                     in (chunks @ butlast sentence_chunks,
                         if sentence_chunks \<noteq> [] then last sentence_chunks else [])))
         else (chunks, current_chunk @ sentence))"

definition split_text ::
  "text_splitter \<Rightarrow> string \<Rightarrow> int option \<Rightarrow> int option \<Rightarrow> string list" where
  "split_text self t csize_arg coverlap_arg =
     (let csize = py_or csize_arg (chunk_size self);
          coverlap = py_or coverlap_arg (chunk_overlap self)
      in if int (length t) \<le> csize then [t]
         else let st = foldl (split_text_step csize coverlap) ([], []) (split_by_sentences t);
                  chunks = fst st; current_chunk = snd st
              in if strip current_chunk \<noteq> [] then chunks @ [strip current_chunk]
                 else chunks)"

section \<open>Exceptions, numbers and dictionaries\<close>

text \<open>
  The exceptions (subclasses of \<open>Exception\<close>) that the modelled code raises itself,
  with the message of a \<open>TypeError\<close> or \<open>AttributeError\<close>, and \<open>Failure\<close> for an
  exception raised inside an external collaborator (the embedding model, the vector
  database) with its message.
\<close>

datatype exn = RuntimeError string | KeyError string | IndexError | TypeError string
  | AttributeError string | Failure string

fun exn_str :: "exn \<Rightarrow> string" where
  "exn_str (RuntimeError m) = m"
| "exn_str (KeyError k) = [CHR 0x27] @ k @ [CHR 0x27]"
| "exn_str IndexError = ''list index out of range''"
| "exn_str (TypeError m) = m"
| "exn_str (AttributeError m) = m"
| "exn_str (Failure m) = m"

text \<open>\<open>str(n)\<close> of an integer: its decimal digits.\<close>

definition digit :: "nat \<Rightarrow> char" where
  "digit d = ''0123456789'' ! d"

fun str_nat :: "nat \<Rightarrow> string" where
  "str_nat n = (if n < 10 then [digit n] else str_nat (n div 10) @ [digit (n mod 10)])"

declare str_nat.simps [simp del]

definition str_int :: "int \<Rightarrow> string" where
  "str_int i = (if i < 0 then ''-'' @ str_nat (nat (- i)) else str_nat (nat i))"

text \<open>
  A Python float is modelled by the rational number it denotes (NaN, the infinities
  and the negative zero are left out). The format specification \<open>.2f\<close> prints the
  value rounded to two decimals, a tie going to the even neighbour, with the sign of
  a negative value kept even when it rounds to zero. An \<open>int\<close> given to \<open>.2f\<close> is
  converted to a float first; this is how the default \<open>0\<close> is printed.
\<close>

definition round_half_even :: "rat \<Rightarrow> int" where
  "round_half_even x =
     (let f = \<lfloor>x\<rfloor>; r = x - of_int f
      in if r < 1 / 2 then f else if 1 / 2 < r then f + 1
         else if even f then f else f + 1)"

definition format_2f :: "rat \<Rightarrow> string" where
  "format_2f x =
     (let n = nat (round_half_even (\<bar>x\<bar> * 100))
      in (if x < 0 then ''-'' else []) @ str_nat (n div 100) @ ''.'' @
         [digit (n mod 100 div 10), digit (n mod 10)])"

text \<open>
  Metadata dictionaries hold strings and integers. A dictionary is an association
  list in insertion order; \<^const>\<open>map_of\<close> reads a key and \<^const>\<open>AList.update\<close> writes
  one as Python does (in place when the key exists, at the end otherwise).
\<close>

datatype mval = MStr string | MInt int

type_synonym metadata = "(string \<times> mval) list"

fun str_mval :: "mval \<Rightarrow> string" where
  "str_mval (MStr s) = s"
| "str_mval (MInt i) = str_int i"

text \<open>\<open>xs[i]\<close> for \<open>i\<close> from a \<open>range\<close> (never negative): out of range raises.\<close>

definition index :: "'a list \<Rightarrow> nat \<Rightarrow> exn + 'a" where
  "index xs i = (if i < length xs then Inr (xs ! i) else Inl IndexError)"

section \<open>Splitting documents (\<open>utils/text_splitter.py\<close>)\<close>

text \<open>
  A document is a dictionary with values of any type. Under each of the two keys that
  \<open>split_documents\<close> reads, the value is absent (\<open>None\<close> here, reading it raises
  \<open>KeyError\<close>), Python's \<open>None\<close> (\<open>PyNone\<close>), or a value of the expected type.
\<close>

datatype 'a pyval = PyNone | PyVal 'a

record document =
  doc_content :: "string pyval option"
  doc_metadata :: "metadata pyval option"

record chunked_doc =
  chunk_content :: string
  chunk_metadata :: metadata

text \<open>
  What Python raises on \<open>len(None)\<close>, on \<open>{**None}\<close> and on \<open>None.get\<close>.
\<close>

definition none_has_no_len :: exn where
  "none_has_no_len = TypeError (''object of type '' @ [CHR 0x27] @ ''NoneType'' @ [CHR 0x27] @
                                '' has no len()'')"

definition none_not_a_mapping :: exn where
  "none_not_a_mapping = TypeError ([CHR 0x27] @ ''NoneType'' @ [CHR 0x27] @
                                   '' object is not a mapping'')"

definition none_has_no_get :: exn where
  "none_has_no_get = AttributeError ([CHR 0x27] @ ''NoneType'' @ [CHR 0x27] @
                                     '' object has no attribute '' @ [CHR 0x27] @ ''get'' @ [CHR 0x27])"

text \<open>
  The inner loop over \<open>enumerate(chunks)\<close>. The list \<open>chunked_documents\<close> is appended
  to inside the \<open>try\<close> block, so the loop carries it along and returns it together
  with the exception raised, if any. The dictionary display first reads
  \<open>doc['metadata']\<close> and unpacks it.
\<close>

fun chunk_loop ::
  "document \<Rightarrow> string \<Rightarrow> string list \<Rightarrow> (nat \<times> string) list \<Rightarrow> chunked_doc list
     \<Rightarrow> exn option \<times> chunked_doc list" where
  "chunk_loop doc c chunks [] chunked_documents = (None, chunked_documents)"
| "chunk_loop doc c chunks ((i, chunk) # rest) chunked_documents =
     (case doc_metadata doc of
        None \<Rightarrow> (Some (KeyError ''metadata''), chunked_documents)
      | Some PyNone \<Rightarrow> (Some none_not_a_mapping, chunked_documents)
      | Some (PyVal m) \<Rightarrow>
        chunk_loop doc c chunks rest
          (chunked_documents @
           [\<lparr>chunk_content = chunk,
             chunk_metadata =
               AList.update ''original_length'' (MInt (int (length c)))
                 (AList.update ''total_chunks'' (MInt (int (length chunks)))
                    (AList.update ''chunk_id'' (MInt (int i)) m))\<rparr>]))"

text \<open>The body of the \<open>try\<close> block for one document.\<close>

definition split_document_try ::
  "text_splitter \<Rightarrow> document \<Rightarrow> chunked_doc list \<Rightarrow> exn option \<times> chunked_doc list" where
  "split_document_try self doc chunked_documents =
     (case doc_content doc of
        None \<Rightarrow> (Some (KeyError ''content''), chunked_documents)
      | Some PyNone \<Rightarrow> (Some none_has_no_len, chunked_documents)
      | Some (PyVal c) \<Rightarrow>
        (let chunks = split_text self c None None
         in chunk_loop doc c chunks (zip [0..<length chunks] chunks) chunked_documents))"

text \<open>
  The \<open>except\<close> handler: its log message evaluates
  \<open>doc.get('metadata', {}).get('source', 'unknown')\<close>, which raises when the value under
  \<open>metadata\<close> is \<open>None\<close>. The result is the exception the handler raises, if any.
\<close>

definition log_failure :: "document \<Rightarrow> exn option" where
  "log_failure doc =
     (case doc_metadata doc of
        Some PyNone \<Rightarrow> Some none_has_no_get
      | _ \<Rightarrow> None)"

text \<open>
  The loop over the documents: an exception of the \<open>try\<close> block is handled and the
  loop goes on (\<open>continue\<close>); an exception of the handler leaves \<open>split_documents\<close>.
\<close>

fun split_documents_loop ::
  "text_splitter \<Rightarrow> document list \<Rightarrow> chunked_doc list \<Rightarrow> exn + chunked_doc list" where
  "split_documents_loop self [] chunked_documents = Inr chunked_documents"
| "split_documents_loop self (doc # docs) chunked_documents =
     (case split_document_try self doc chunked_documents of
        (None, chunked_documents') \<Rightarrow> split_documents_loop self docs chunked_documents'
      | (Some e, chunked_documents') \<Rightarrow>
        (case log_failure doc of
           Some e' \<Rightarrow> Inl e'
         | None \<Rightarrow> split_documents_loop self docs chunked_documents'))"

definition split_documents :: "text_splitter \<Rightarrow> document list \<Rightarrow> exn + chunked_doc list" where
  "split_documents self docs = split_documents_loop self docs []"

text \<open>The dictionary that the inner loop builds for the pair \<open>(i, chunk)\<close>.\<close>

definition stamp :: "metadata \<Rightarrow> string \<Rightarrow> string list \<Rightarrow> nat \<times> string \<Rightarrow> chunked_doc" where
  "stamp m c chunks p = \<lparr>chunk_content = snd p,
             chunk_metadata =
               AList.update ''original_length'' (MInt (int (length c)))
                 (AList.update ''total_chunks'' (MInt (int (length chunks)))
                    (AList.update ''chunk_id'' (MInt (int (fst p))) m))\<rparr>"

section \<open>The retriever (\<open>retrieval/retriever.py\<close>)\<close>

text \<open>
  The reply of the vector database to a query: for each of the three keys either
  \<open>None\<close> or one list per query embedding.
\<close>

record query_result =
  documents :: "string list list option"
  metadatas :: "metadata list list option"
  distances :: "rat list list option"

text \<open>
  The external collaborators, as the calls the retriever makes on them: the
  collection of the vector database in a state \<open>'c\<close> (\<open>count\<close>, \<open>query\<close> with the query
  embedding and \<open>n_results\<close>, \<open>add\<close> of one batch of documents, metadatas, ids and
  embeddings), and the embedding manager. Each call returns or raises.
\<close>

record ('c, 'e) chroma =
  c_count :: "'c \<Rightarrow> exn + nat"
  c_query :: "'c \<Rightarrow> 'e \<Rightarrow> int \<Rightarrow> exn + query_result"
  c_add :: "'c \<Rightarrow> string list \<Rightarrow> metadata list \<Rightarrow> string list \<Rightarrow> 'e list \<Rightarrow> exn + 'c"

record 'e embedding_manager =
  embed_text :: "string \<Rightarrow> exn + 'e"
  embed_texts :: "string list \<Rightarrow> exn + 'e list"

text \<open>
  The state of a \<open>DocumentRetriever\<close>: \<open>collection\<close> is \<open>None\<close> until \<open>initialize\<close> has
  run; \<open>collection_name\<close> is the name in its configuration.
\<close>

record 'c document_retriever =
  collection :: "'c option"
  collection_name :: string

text \<open>
  A result dictionary. A field is \<open>None\<close> when the dictionary has no such key; the
  value under \<open>distance\<close> can itself be Python's \<open>None\<close>.
\<close>

record result_doc =
  content :: "string option"
  metadata :: "metadata option"
  similarity :: "rat option"
  distance :: "rat option option"

definition not_initialized :: exn where
  "not_initialized = RuntimeError ''Retriever not initialized. Call initialize() first.''"

text \<open>The loop that formats the reply, one dictionary per returned document.\<close>

definition format_doc :: "query_result \<Rightarrow> string list \<Rightarrow> nat \<Rightarrow> exn + result_doc" where
  "format_doc results docs0 i =
     (case index docs0 i of Inl e \<Rightarrow> Inl e
      | Inr c \<Rightarrow>
        (case (case metadatas results of
                 Some (ms # _) \<Rightarrow> index ms i
               | _ \<Rightarrow> Inr [])
         of Inl e \<Rightarrow> Inl e
         | Inr m \<Rightarrow>
           (case (case distances results of
                    Some (ds # _) \<Rightarrow> map_sum id Some (index ds i)
                  | _ \<Rightarrow> Inr None)
            of Inl e \<Rightarrow> Inl e
            | Inr d \<Rightarrow>
              Inr \<lparr>content = Some c, metadata = Some m, similarity = None,
                    distance = Some d\<rparr>)))"

fun format_loop :: "query_result \<Rightarrow> string list \<Rightarrow> nat list \<Rightarrow> result_doc list \<Rightarrow> exn + result_doc list" where
  "format_loop results docs0 [] acc = Inr acc"
| "format_loop results docs0 (i # is) acc =
     (case format_doc results docs0 i of Inl e \<Rightarrow> Inl e
      | Inr doc \<Rightarrow> format_loop results docs0 is (acc @ [doc]))"

definition format_results :: "query_result \<Rightarrow> exn + result_doc list" where
  "format_results results =
     (case documents results of
        Some (docs0 # _) \<Rightarrow>
          (if docs0 \<noteq> [] then format_loop results docs0 [0..<length docs0] [] else Inr [])
      | _ \<Rightarrow> Inr [])"

text \<open>The body of the \<open>try\<close> block of \<open>retrieve\<close>.\<close>

definition retrieve_try ::
  "('c, 'e) chroma \<Rightarrow> 'e embedding_manager \<Rightarrow> 'c \<Rightarrow> string \<Rightarrow> int \<Rightarrow> exn + result_doc list" where
  "retrieve_try db em c q n_results =
     (case c_count db c of Inl e \<Rightarrow> Inl e
      | Inr cnt \<Rightarrow>
        if cnt = 0 then Inr []
        else (case embed_text em q of Inl e \<Rightarrow> Inl e
              | Inr query_embedding \<Rightarrow>
                (case c_query db c query_embedding (min n_results (int cnt)) of
                   Inl e \<Rightarrow> Inl e
                 | Inr results \<Rightarrow> format_results results)))"

definition retrieve ::
  "('c, 'e) chroma \<Rightarrow> 'e embedding_manager \<Rightarrow> 'c document_retriever \<Rightarrow> string \<Rightarrow> int
     \<Rightarrow> exn + result_doc list" where
  "retrieve db em self q n_results =
     (case collection self of
        None \<Rightarrow> Inl not_initialized
      | Some c \<Rightarrow>
        (case retrieve_try db em c q n_results of
           Inl e \<Rightarrow> Inr []
         | Inr docs \<Rightarrow> Inr docs))"

text \<open>
  \<open>add_documents\<close>. The method returns nothing and changes the collection, also when
  it raises after some batches went in: the result is the exception raised, if any,
  and the retriever afterwards.
\<close>

fun add_batches ::
  "('c, 'e) chroma \<Rightarrow> nat list \<Rightarrow> string list \<Rightarrow> metadata list \<Rightarrow> string list \<Rightarrow> 'e list \<Rightarrow> 'c
     \<Rightarrow> exn option \<times> 'c" where
  "add_batches db [] docs metas ids embs c = (None, c)"
| "add_batches db (i # is) docs metas ids embs c =
     (case c_add db c (take 100 (drop i docs)) (take 100 (drop i metas))
             (take 100 (drop i ids)) (take 100 (drop i embs)) of
        Inl e \<Rightarrow> (Some e, c)
      | Inr c' \<Rightarrow> add_batches db is docs metas ids embs c')"

definition add_documents ::
  "('c, 'e) chroma \<Rightarrow> 'e embedding_manager \<Rightarrow> 'c document_retriever \<Rightarrow> string list
     \<Rightarrow> metadata list \<Rightarrow> string list option \<Rightarrow> exn option \<times> 'c document_retriever" where
  "add_documents db em self docs metas ids_arg =
     (case collection self of
        None \<Rightarrow> (Some not_initialized, self)
      | Some c \<Rightarrow>
        (let ids = (case ids_arg of
                      Some (x # xs) \<Rightarrow> x # xs
                    | _ \<Rightarrow> map (\<lambda>i. ''doc_'' @ str_nat i) [0..<length docs])
         in case embed_texts em docs of
              Inl e \<Rightarrow> (Some e, self)
            | Inr embeddings \<Rightarrow>
              (let r = add_batches db (map (\<lambda>k. k * 100) [0..<(length docs + 99) div 100])
                         docs metas ids embeddings c
               in (fst r, self\<lparr>collection := Some (snd r)\<rparr>))))"

text \<open>\<open>get_retrieval_stats\<close>; a field of the result is \<open>None\<close> when the key is absent.\<close>

record retrieval_stats =
  document_count :: nat
  status :: string
  stats_collection_name :: "string option"
  stats_error :: "string option"

definition get_retrieval_stats :: "('c, 'e) chroma \<Rightarrow> 'c document_retriever \<Rightarrow> retrieval_stats" where
  "get_retrieval_stats db self =
     (case collection self of
        None \<Rightarrow> \<lparr>document_count = 0, status = ''not_initialized'',
                  stats_collection_name = None, stats_error = None\<rparr>
      | Some c \<Rightarrow>
        (case c_count db c of
           Inr cnt \<Rightarrow> \<lparr>document_count = cnt, status = ''ready'',
                       stats_collection_name = Some (collection_name self), stats_error = None\<rparr>
         | Inl e \<Rightarrow> \<lparr>document_count = 0, status = ''error'',
                     stats_collection_name = None, stats_error = Some (exn_str e)\<rparr>))"

section \<open>The context of the prompt (\<open>generation/llm_manager.py\<close>)\<close>

text \<open>\<open>"\n".join(parts)\<close>.\<close>

fun join_newline :: "string list \<Rightarrow> string" where
  "join_newline [] = []"
| "join_newline [p] = p"
| "join_newline (p # ps) = p @ [CHR 0x0A] @ join_newline ps"

text \<open>One round of the loop of \<open>_build_context\<close>: the block of document number \<open>i\<close>.\<close>

definition context_part :: "nat \<Rightarrow> result_doc \<Rightarrow> exn + string" where
  "context_part i doc =
     (case content doc of
        None \<Rightarrow> Inl (KeyError ''content'')
      | Some c \<Rightarrow>
        (let source = (case map_of (case metadata doc of None \<Rightarrow> [] | Some m \<Rightarrow> m) ''source'' of
                         None \<Rightarrow> MStr ''Unknown'' | Some v \<Rightarrow> v);
             sim = (case similarity doc of None \<Rightarrow> 0 | Some x \<Rightarrow> x)
         in Inr (''Document '' @ str_nat i @ '' (Relevance: '' @ format_2f sim @
                 '', Source: '' @ str_mval source @ ''):'' @ [CHR 0x0A] @ c @ [CHR 0x0A])))"

fun context_loop :: "nat \<Rightarrow> result_doc list \<Rightarrow> string list \<Rightarrow> exn + string list" where
  "context_loop i [] context_parts = Inr context_parts"
| "context_loop i (doc # docs) context_parts =
     (case context_part i doc of Inl e \<Rightarrow> Inl e
      | Inr p \<Rightarrow> context_loop (Suc i) docs (context_parts @ [p]))"

definition build_context :: "result_doc list \<Rightarrow> exn + string" where
  "build_context docs =
     (if docs = [] then Inr ''No relevant information found in the knowledge base.''
      else map_sum id join_newline (context_loop 1 docs []))"

section \<open>Auxiliary notions for the text splitter\<close>

text \<open>The configuration's defaults (\<open>config.py\<close>).\<close>

definition default_splitter :: text_splitter where
  "default_splitter = \<lparr>chunk_size = 1000, chunk_overlap = 200\<rparr>"

text \<open>The non-empty strings that are both a suffix of \<open>a\<close> and a prefix of \<open>b\<close>.\<close>

definition shared_affixes :: "string \<Rightarrow> string \<Rightarrow> string list" where
  "shared_affixes a b = filter (\<lambda>x. x \<noteq> [] \<and> suffix x a) (prefixes b)"





text \<open>
  A run of traced chunks in which every chunk has its buffer, the first buffer starts
  with \<open>p\<close> and every later buffer starts with the overlap text of the buffer before.
\<close>

fun chain :: "int \<Rightarrow> string \<Rightarrow> (string \<times> string option) list \<Rightarrow> bool" where
  "chain k p [] = True"
| "chain k p ((c, None) # es) = False"
| "chain k p ((c, Some b) # es) = (prefix p b \<and> c = strip b \<and> chain k (get_overlap_text b k) es)"



section \<open>Stub collaborators\<close>

text \<open>
  A vector database whose state is the list of its records, each with the distance
  the one query of interest gives it, nearest first: \<open>count\<close> is the number of
  records and \<open>query\<close> returns the first \<open>n_results\<close> of them. The embedding is a
  dummy. They instantiate the statements about the retriever on concrete inputs.
\<close>

definition stub_db :: "((string \<times> metadata \<times> rat) list, unit) chroma" where
  "stub_db =
     \<lparr>c_count = (\<lambda>c. Inr (length c)),
      c_query = (\<lambda>c e k.
         if k \<le> 0 then Inl (Failure ''Number of requested results must be positive'')
         else Inr \<lparr>documents = Some [take (nat k) (map fst c)],
                   metadatas = Some [take (nat k) (map (fst \<circ> snd) c)],
                   distances = Some [take (nat k) (map (snd \<circ> snd) c)]\<rparr>),
      c_add = (\<lambda>c docs metas ids embs. Inr (c @ zip docs (zip metas (map (\<lambda>_. 0) docs))))\<rparr>"

definition broken_db :: "((string \<times> metadata \<times> rat) list, unit) chroma" where
  "broken_db = stub_db\<lparr>c_query := (\<lambda>c e k. Inl (Failure ''database is locked''))\<rparr>"

definition stub_em :: "unit embedding_manager" where
  "stub_em = \<lparr>embed_text = (\<lambda>t. Inr ()), embed_texts = (\<lambda>ts. Inr (map (\<lambda>_. ()) ts))\<rparr>"

definition failing_em :: "unit embedding_manager" where
  "failing_em =
     \<lparr>embed_text = (\<lambda>t. Inl (RuntimeError ''Embedding model not initialized'')),
      embed_texts = (\<lambda>ts. Inl (RuntimeError ''Embedding model not initialized''))\<rparr>"

definition stub_store :: "(string \<times> metadata \<times> rat) list" where
  "stub_store =
     [(''Cardio strengthens the heart.'', [(''source'', MStr ''cardio.md'')], 1 / 4),
      (''Strength training builds muscle.'', [(''source'', MStr ''strength.md'')], 1 / 2),
      (''Stretching improves flexibility.'', [(''source'', MStr ''flex.md'')], 3 / 4)]"

definition stub_retriever :: "(string \<times> metadata \<times> rat) list document_retriever" where
  "stub_retriever = \<lparr>collection = Some stub_store, collection_name = ''fitflix_documents''\<rparr>"

definition empty_retriever :: "(string \<times> metadata \<times> rat) list document_retriever" where
  "empty_retriever = \<lparr>collection = Some [], collection_name = ''fitflix_documents''\<rparr>"

definition fresh_retriever :: "(string \<times> metadata \<times> rat) list document_retriever" where
  "fresh_retriever = \<lparr>collection = None, collection_name = ''fitflix_documents''\<rparr>"


text \<open>
  Three documents: one whose metadata is \<open>None\<close>, one without content, one well formed.
\<close>

definition none_metadata_document :: document where
  "none_metadata_document = \<lparr>doc_content = Some (PyVal ''Stay fit.''), doc_metadata = Some PyNone\<rparr>"

definition no_content_document :: document where
  "no_content_document =
     \<lparr>doc_content = None, doc_metadata = Some (PyVal [(''source'', MStr ''broken.md'')])\<rparr>"

definition diet_document :: document where
  "diet_document =
     \<lparr>doc_content = Some (PyVal ''Eat well.''),
      doc_metadata = Some (PyVal [(''source'', MStr ''diet.md''), (''category'', MStr ''nutrition'')])\<rparr>"

section \<open>Properties of the text splitter\<close>

text \<open>
  Claim C3. When the text is no longer than the chunk size in force (the argument, or
  the splitter's own size when the argument is \<open>None\<close> or \<open>0\<close>), \<open>split_text\<close> returns
  the one-element list holding the text unchanged. In particular an empty text gives
  the list holding the empty string, not the empty list.
\<close>

theorem split_text_short:
  "(int (length t) \<le> py_or csize_arg (chunk_size self) \<longrightarrow>
      split_text self t csize_arg coverlap_arg = [t]) \<and>
   (0 \<le> py_or csize_arg (chunk_size self) \<longrightarrow>
      split_text self [] csize_arg coverlap_arg = [[]])"
  by (simp add: split_text_def Let_def)

theorem split_text_short_witness:
  "int (length ''Stay fit.'') \<le> py_or None (chunk_size \<lparr>chunk_size = 1000, chunk_overlap = 200\<rparr>) \<and>
   split_text \<lparr>chunk_size = 1000, chunk_overlap = 200\<rparr> ''Stay fit.'' None None = [''Stay fit.''] \<and>
   0 \<le> py_or None (chunk_size \<lparr>chunk_size = 1000, chunk_overlap = 200\<rparr>) \<and>
   split_text \<lparr>chunk_size = 1000, chunk_overlap = 200\<rparr> [] None None = [[]]"
  using split_text_short [of "''Stay fit.''" None "\<lparr>chunk_size = 1000, chunk_overlap = 200\<rparr>" None]
  by (simp add: py_or_def)

lemmas split_eval = split_text_def py_or_def split_by_sentences_def strip_def
  isspace_def sentence_end_def split_text_step_def get_overlap_text_def slice_from_def
  find_space_def Let_def split_long_sentence_def long_sentence_step_def py_split_def
  get_overlap_words_def default_splitter_def






























lemma chain_all_buffers:
  "chain k p es \<Longrightarrow> j < length es \<Longrightarrow> \<exists>b. es ! j = (strip b, Some b)"
proof (induction k p es arbitrary: j rule: chain.induct)
  case (3 k p c b es)
  then show ?case by (cases j) auto
qed simp_all



lemma shared_affixes_iff:
  "x \<in> set (shared_affixes a b) \<longleftrightarrow> x \<noteq> [] \<and> suffix x a \<and> prefix x b"
  by (auto simp: shared_affixes_def in_set_prefixes)

text \<open>
  Claim C1. With \<open>chunk_size = 10\<close> and \<open>chunk_overlap = 5\<close> the text
  \<open>aa bb. cccccccc.\<close> (16 characters) has the two sentences \<open>aa bb.\<close> and \<open>cccccccc.\<close>,
  of 7 and 10 characters with their trailing space, and no word of more than 9
  characters; the second chunk returned is the overlap \<open>bb.\<close> followed by the second
  sentence and has 13 characters.
\<close>

theorem chunk_exceeds_chunk_size:
  "split_text default_splitter ''aa bb. cccccccc.'' (Some 10) (Some 5) =
     [''aa bb.'', ''bb. cccccccc.''] \<and>
   split_by_sentences ''aa bb. cccccccc.'' = [''aa bb. '', ''cccccccc. ''] \<and>
   py_split ''aa bb. cccccccc.'' = [''aa'', ''bb.'', ''cccccccc.''] \<and>
   get_overlap_text ''aa bb. '' 5 = '' bb. '' \<and>
   length ''bb. cccccccc.'' = 13 \<and> length ''aa bb. cccccccc.'' = 16"
  by (simp add: split_eval)

text \<open>
  Claim C2. With \<open>chunk_size = 10\<close> and \<open>chunk_overlap = 5\<close> the text
  \<open>aaaaaaaaaaaa bb. cc.\<close> has the sentences \<open>aaaaaaaaaaaa bb.\<close> and \<open>cc.\<close>. The first is
  split by words into \<open>aaaaaaaaaaaa\<close> and \<open>bb.\<close>; the last word-chunk is carried as
  the buffer without a trailing space, so the second sentence is glued to it: the
  chunks are \<open>aaaaaaaaaaaa\<close> and \<open>bb.cc.\<close>. No overlap is involved. The words of the
  chunks are not the words of the text, and the chunks joined by a space are one
  sentence for \<open>_split_by_sentences\<close>, not two.
\<close>

theorem sentence_boundary_lost:
  "split_text default_splitter ''aaaaaaaaaaaa bb. cc.'' (Some 10) (Some 5) =
     [''aaaaaaaaaaaa'', ''bb.cc.''] \<and>
   split_by_sentences ''aaaaaaaaaaaa bb. cc.'' = [''aaaaaaaaaaaa bb. '', ''cc. ''] \<and>
   split_long_sentence ''aaaaaaaaaaaa bb. '' 10 5 = [''aaaaaaaaaaaa'', ''bb.''] \<and>
   py_split ''aaaaaaaaaaaa bb. cc.'' = [''aaaaaaaaaaaa'', ''bb.'', ''cc.''] \<and>
   concat (map py_split [''aaaaaaaaaaaa'', ''bb.cc.'']) = [''aaaaaaaaaaaa'', ''bb.cc.''] \<and>
   split_by_sentences (join_space [''aaaaaaaaaaaa'', ''bb.cc.'']) = [''aaaaaaaaaaaa bb.cc. '']"
  by (simp add: split_eval)





lemma chunk_loop_ok:
  "doc_metadata doc = Some (PyVal m) \<Longrightarrow>
     chunk_loop doc c chunks ixs acc = (None, acc @ map (stamp m c chunks) ixs)"
  by (induction ixs arbitrary: acc) (auto simp: stamp_def)

lemma split_document_try_ok:
  assumes "doc_content d = Some (PyVal c)" "doc_metadata d = Some (PyVal m)"
  shows "split_document_try self d acc =
           (None, acc @ map (stamp m c (split_text self c None None))
                         (zip [0..<length (split_text self c None None)] (split_text self c None None)))"
  using assms by (simp add: split_document_try_def chunk_loop_ok Let_def)

lemma stamp_lookup:
  "map_of (chunk_metadata (stamp m c chunks (i, ch))) =
     (map_of m)(''chunk_id'' \<mapsto> MInt (int i), ''total_chunks'' \<mapsto> MInt (int (length chunks)),
                ''original_length'' \<mapsto> MInt (int (length c)))"
  by (simp add: stamp_def update_conv')

lemma stamp_keys:
  "fst ` set (chunk_metadata (stamp m c chunks p)) =
     {''chunk_id'', ''total_chunks'', ''original_length''} \<union> fst ` set m"
  by (auto simp: stamp_def dom_update)

lemma failed_document_skipped:
  assumes "split_document_try self d acc = (Some e, acc')" "doc_metadata d \<noteq> Some PyNone"
  shows "split_documents_loop self (d # ds) acc = split_documents_loop self ds acc'"
  using assms by (auto simp: log_failure_def split: option.splits pyval.splits)

lemmas documents_eval = split_documents_def split_document_try_def log_failure_def
  none_metadata_document_def no_content_document_def diet_document_def
  none_not_a_mapping_def none_has_no_get_def none_has_no_len_def

text \<open>
  Claim C7. For the two documents \<open>{'content': 'Stay fit.', 'metadata': None}\<close> and
  \<open>{'content': 'Eat well.', 'metadata': {'source': 'diet.md', 'category': 'nutrition'}}\<close>
  the \<open>try\<close> block of the first raises \<open>TypeError\<close> (\<open>None\<close> is not a mapping), the
  handler's own log message then raises \<open>AttributeError\<close> (\<open>None\<close> has no \<open>get\<close>), and
  this exception leaves \<open>split_documents\<close>: the second document is not processed.
  Alone, the second document gives one chunk whose metadata keeps \<open>source\<close> and
  \<open>category\<close> and adds \<open>chunk_id\<close>, \<open>total_chunks\<close> and \<open>original_length\<close>; after a
  document without content it is processed as if alone.
\<close>

theorem split_documents_aborts:
  "split_documents default_splitter [none_metadata_document, diet_document] =
     Inl (AttributeError ([CHR 0x27] @ ''NoneType'' @ [CHR 0x27] @ '' object has no attribute '' @
                          [CHR 0x27] @ ''get'' @ [CHR 0x27])) \<and>
   split_document_try default_splitter none_metadata_document [] =
     (Some (TypeError ([CHR 0x27] @ ''NoneType'' @ [CHR 0x27] @ '' object is not a mapping'')), []) \<and>
   split_documents default_splitter [diet_document] =
     Inr [\<lparr>chunk_content = ''Eat well.'',
           chunk_metadata = [(''source'', MStr ''diet.md''), (''category'', MStr ''nutrition''),
                             (''chunk_id'', MInt 0), (''total_chunks'', MInt 1),
                             (''original_length'', MInt 9)]\<rparr>] \<and>
   split_documents default_splitter [no_content_document, diet_document] =
     split_documents default_splitter [diet_document]"
  by (simp add: documents_eval split_eval)

section \<open>Properties of the retriever\<close>

lemma format_loop_length:
  "format_loop r d0 is acc = Inr docs \<Longrightarrow> length docs = length acc + length is"
  by (induction "is" arbitrary: acc) (auto split: sum.splits)

lemma format_loop_zip:
  assumes "metadatas r = Some (ms # mss)" "distances r = Some (dists # dss)"
      and "\<forall>i\<in>set is. i < length d0 \<and> i < length ms \<and> i < length dists"
  shows "format_loop r d0 is acc =
     Inr (acc @ map (\<lambda>i. \<lparr>content = Some (d0 ! i), metadata = Some (ms ! i),
                           similarity = None, distance = Some (Some (dists ! i))\<rparr>) is)"
  using assms(3)
  by (induction "is" arbitrary: acc) (simp_all add: format_doc_def index_def assms(1,2))

lemma format_results_length:
  "format_results r = Inr docs \<Longrightarrow>
     docs = [] \<or> (\<exists>ds dss. documents r = Some (ds # dss) \<and> length docs = length ds)"
  by (auto simp: format_results_def split: option.splits list.splits if_splits
           dest: format_loop_length)

lemma retrieve_returns:
  "collection self = Some c \<Longrightarrow> \<exists>docs. retrieve db em self q n = Inr docs"
  by (simp add: retrieve_def split: sum.splits)

text \<open>
  Claim C4. On an initialized retriever whose store reports \<open>stored_count\<close> records and
  returns at most as many documents as it is asked for, \<open>retrieve\<close> returns at most
  \<open>min(n_results, stored_count)\<close> results; when the embedding and the store query
  succeed, the results are the store's documents, metadatas and distances zipped by
  position, in the store's order.
\<close>

theorem retrieve_bounded_zipped:
  assumes init: "collection self = Some c"
      and cnt: "c_count db c = Inr stored_count"
      and contract: "\<forall>e k r ds dss. c_query db c e k = Inr r \<longrightarrow> documents r = Some (ds # dss)
                        \<longrightarrow> length ds \<le> nat k"
  shows "\<exists>docs. retrieve db em self q n_results = Inr docs \<and>
           length docs \<le> nat (min n_results (int stored_count)) \<and>
           (\<forall>e r ds ms dists.
              stored_count \<noteq> 0 \<longrightarrow> embed_text em q = Inr e \<longrightarrow>
              c_query db c e (min n_results (int stored_count)) = Inr r \<longrightarrow>
              documents r = Some [ds] \<longrightarrow> metadatas r = Some [ms] \<longrightarrow> distances r = Some [dists] \<longrightarrow>
              length ms = length ds \<longrightarrow> length dists = length ds \<longrightarrow>
              docs = map (\<lambda>i. \<lparr>content = Some (ds ! i), metadata = Some (ms ! i),
                                 similarity = None, distance = Some (Some (dists ! i))\<rparr>)
                         [0..<length ds])"
proof -
  obtain docs where docs: "retrieve db em self q n_results = Inr docs"
    using retrieve_returns [OF init] by blast
  have len: "length docs \<le> nat (min n_results (int stored_count))"
  proof (cases "retrieve_try db em c q n_results")
    case (Inl e)
    then show ?thesis using docs init by (simp add: retrieve_def)
  next
    case (Inr ds')
    then have eq: "ds' = docs" using docs init by (simp add: retrieve_def)
    show ?thesis
    proof (cases "docs = []")
      case True then show ?thesis by simp
    next
      case False
      with Inr eq cnt obtain e r where
        q: "c_query db c e (min n_results (int stored_count)) = Inr r"
        and f: "format_results r = Inr docs"
        by (auto simp: retrieve_try_def split: sum.splits if_splits)
      from format_results_length [OF f] False obtain ds dss where
        "documents r = Some (ds # dss)" "length docs = length ds" by blast
      with contract q show ?thesis by metis
    qed
  qed
  have zipped: "docs = map (\<lambda>i. \<lparr>content = Some (ds ! i), metadata = Some (ms ! i),
                                 similarity = None, distance = Some (Some (dists ! i))\<rparr>)
                         [0..<length ds]"
    if "stored_count \<noteq> 0" "embed_text em q = Inr e"
       "c_query db c e (min n_results (int stored_count)) = Inr r"
       "documents r = Some [ds]" "metadatas r = Some [ms]" "distances r = Some [dists]"
       "length ms = length ds" "length dists = length ds"
    for e r ds ms dists
  proof -
    have "format_results r = Inr (map (\<lambda>i. \<lparr>content = Some (ds ! i), metadata = Some (ms ! i),
                                 similarity = None, distance = Some (Some (dists ! i))\<rparr>)
                         [0..<length ds])"
      using that format_loop_zip [of r ms "[]" dists "[]" "[0..<length ds]" ds "[]"]
      by (cases "ds = []") (simp_all add: format_results_def)
    then show ?thesis
      using that docs init cnt by (simp add: retrieve_def retrieve_try_def)
  qed
  from docs len zipped show ?thesis by blast
qed

theorem retrieve_bounded_zipped_witness:
  "collection stub_retriever = Some stub_store \<and> c_count stub_db stub_store = Inr 3 \<and>
   retrieve stub_db stub_em stub_retriever ''heart exercise'' 2 =
     Inr [\<lparr>content = Some ''Cardio strengthens the heart.'',
            metadata = Some [(''source'', MStr ''cardio.md'')],
            similarity = None, distance = Some (Some (1 / 4))\<rparr>,
          \<lparr>content = Some ''Strength training builds muscle.'',
            metadata = Some [(''source'', MStr ''strength.md'')],
            similarity = None, distance = Some (Some (1 / 2))\<rparr>]"
proof -
  have init: "collection stub_retriever = Some stub_store"
    by (simp add: stub_retriever_def)
  have cnt: "c_count stub_db stub_store = Inr 3"
    by (simp add: stub_db_def stub_store_def)
  have contract: "\<forall>e k r ds dss. c_query stub_db stub_store e k = Inr r \<longrightarrow>
      documents r = Some (ds # dss) \<longrightarrow> length ds \<le> nat k"
    by (auto simp: stub_db_def split: if_splits)
  obtain docs where docs: "retrieve stub_db stub_em stub_retriever ''heart exercise'' 2 = Inr docs"
    and len: "length docs \<le> nat (min 2 (int 3))"
    and zipped: "\<And>e r ds ms dists.
       (3::nat) \<noteq> 0 \<Longrightarrow> embed_text stub_em ''heart exercise'' = Inr e \<Longrightarrow>
       c_query stub_db stub_store e (min 2 (int 3)) = Inr r \<Longrightarrow>
       documents r = Some [ds] \<Longrightarrow> metadatas r = Some [ms] \<Longrightarrow> distances r = Some [dists] \<Longrightarrow>
       length ms = length ds \<Longrightarrow> length dists = length ds \<Longrightarrow>
       docs = map (\<lambda>i. \<lparr>content = Some (ds ! i), metadata = Some (ms ! i),
                          similarity = None, distance = Some (Some (dists ! i))\<rparr>)
                  [0..<length ds]"
    using retrieve_bounded_zipped [OF init cnt contract, of stub_em "''heart exercise''" 2]
    by blast
  have "docs = map (\<lambda>i. \<lparr>content = Some ([''Cardio strengthens the heart.'',
                                            ''Strength training builds muscle.''] ! i),
                          metadata = Some ([[(''source'', MStr ''cardio.md'')],
                                            [(''source'', MStr ''strength.md'')]] ! i),
                          similarity = None,
                          distance = Some (Some ([1 / 4, 1 / 2] ! i))\<rparr>)
                  [0..<length [''Cardio strengthens the heart.'',
                               ''Strength training builds muscle.'']]"
  proof (rule zipped [where e = "()" and r = "\<lparr>documents = Some [[''Cardio strengthens the heart.'',
            ''Strength training builds muscle.'']],
         metadatas = Some [[[(''source'', MStr ''cardio.md'')], [(''source'', MStr ''strength.md'')]]],
         distances = Some [[1 / 4, 1 / 2]]\<rparr>"])
    show "c_query stub_db stub_store () (min 2 (int 3)) =
       Inr \<lparr>documents = Some [[''Cardio strengthens the heart.'',
            ''Strength training builds muscle.'']],
         metadatas = Some [[[(''source'', MStr ''cardio.md'')], [(''source'', MStr ''strength.md'')]]],
         distances = Some [[1 / 4, 1 / 2]]\<rparr>"
      by (simp add: stub_db_def stub_store_def)
  qed (simp_all add: stub_em_def)
  then have "docs = [\<lparr>content = Some ''Cardio strengthens the heart.'',
            metadata = Some [(''source'', MStr ''cardio.md'')],
            similarity = None, distance = Some (Some (1 / 4))\<rparr>,
          \<lparr>content = Some ''Strength training builds muscle.'',
            metadata = Some [(''source'', MStr ''strength.md'')],
            similarity = None, distance = Some (Some (1 / 2))\<rparr>]"
    by (simp add: upt_rec)
  with docs init cnt show ?thesis by simp
qed

text \<open>
  Claim C5. An initialized retriever never raises from \<open>retrieve\<close>: it returns the
  empty list when the store holds no record, when the query embedding raises, when
  the store query raises and when the count raises.
\<close>

theorem retrieve_degrades:
  assumes init: "collection self = Some c"
  shows "(\<exists>docs. retrieve db em self q n_results = Inr docs) \<and>
         (c_count db c = Inr 0 \<longrightarrow> retrieve db em self q n_results = Inr []) \<and>
         ((\<exists>e. embed_text em q = Inl e) \<longrightarrow> retrieve db em self q n_results = Inr []) \<and>
         (\<forall>cnt e. c_count db c = Inr cnt \<longrightarrow> embed_text em q = Inr e \<longrightarrow>
            (\<exists>x. c_query db c e (min n_results (int cnt)) = Inl x) \<longrightarrow>
            retrieve db em self q n_results = Inr []) \<and>
         ((\<exists>x. c_count db c = Inl x) \<longrightarrow> retrieve db em self q n_results = Inr [])"
  using init
  by (auto simp: retrieve_def retrieve_try_def split: sum.splits)

theorem retrieve_degrades_witness:
  "collection empty_retriever = Some [] \<and> c_count stub_db [] = Inr 0 \<and>
   retrieve stub_db stub_em empty_retriever ''heart exercise'' 5 = Inr [] \<and>
   collection stub_retriever = Some stub_store \<and>
   embed_text failing_em ''heart exercise'' = Inl (RuntimeError ''Embedding model not initialized'') \<and>
   retrieve stub_db failing_em stub_retriever ''heart exercise'' 5 = Inr [] \<and>
   c_query broken_db stub_store () (min 5 (int 3)) = Inl (Failure ''database is locked'') \<and>
   retrieve broken_db stub_em stub_retriever ''heart exercise'' 5 = Inr []"
proof -
  have i0: "collection empty_retriever = Some []"
    by (simp add: empty_retriever_def)
  have i1: "collection stub_retriever = Some stub_store"
    by (simp add: stub_retriever_def)
  have c0: "c_count stub_db [] = Inr 0"
    by (simp add: stub_db_def)
  have e1: "embed_text failing_em ''heart exercise'' = Inl (RuntimeError ''Embedding model not initialized'')"
    by (simp add: failing_em_def)
  have c2: "c_count broken_db stub_store = Inr 3"
    by (simp add: broken_db_def stub_db_def stub_store_def)
  have e2: "embed_text stub_em ''heart exercise'' = Inr ()"
    by (simp add: stub_em_def)
  have q2: "c_query broken_db stub_store () (min 5 (int 3)) = Inl (Failure ''database is locked'')"
    by (simp add: broken_db_def)
  from retrieve_degrades [OF i0, of stub_db stub_em "''heart exercise''" 5] c0
  have r0: "retrieve stub_db stub_em empty_retriever ''heart exercise'' 5 = Inr []"
    by blast
  from retrieve_degrades [OF i1, of stub_db failing_em "''heart exercise''" 5] e1
  have r1: "retrieve stub_db failing_em stub_retriever ''heart exercise'' 5 = Inr []"
    by blast
  from retrieve_degrades [OF i1, of broken_db stub_em "''heart exercise''" 5] c2 e2 q2
  have r2: "retrieve broken_db stub_em stub_retriever ''heart exercise'' 5 = Inr []"
    by blast
  from i0 c0 r0 i1 e1 r1 q2 r2 show ?thesis by simp
qed

text \<open>
  Claim C9. Before \<open>initialize\<close> (the collection is \<open>None\<close>) both \<open>retrieve\<close> and
  \<open>add_documents\<close> raise the \<open>RuntimeError\<close>, while \<open>get_retrieval_stats\<close> returns the
  dictionary with \<open>document_count\<close> 0 and \<open>status\<close> \<open>not_initialized\<close>.
\<close>

theorem uninitialized_retriever:
  assumes "collection self = None"
  shows "retrieve db em self q n_results =
           Inl (RuntimeError ''Retriever not initialized. Call initialize() first.'') \<and>
         add_documents db em self docs metas ids =
           (Some (RuntimeError ''Retriever not initialized. Call initialize() first.''), self) \<and>
         get_retrieval_stats db self =
           \<lparr>document_count = 0, status = ''not_initialized'',
            stats_collection_name = None, stats_error = None\<rparr>"
  using assms
  by (simp add: retrieve_def add_documents_def get_retrieval_stats_def not_initialized_def)

theorem uninitialized_retriever_witness:
  "collection fresh_retriever = None \<and>
   retrieve stub_db stub_em fresh_retriever ''heart exercise'' 5 =
     Inl (RuntimeError ''Retriever not initialized. Call initialize() first.'') \<and>
   add_documents stub_db stub_em fresh_retriever [''Cardio strengthens the heart.'']
       [[(''source'', MStr ''cardio.md'')]] None =
     (Some (RuntimeError ''Retriever not initialized. Call initialize() first.''), fresh_retriever) \<and>
   get_retrieval_stats stub_db fresh_retriever =
     \<lparr>document_count = 0, status = ''not_initialized'',
      stats_collection_name = None, stats_error = None\<rparr>"
proof -
  have init: "collection fresh_retriever = None"
    by (simp add: fresh_retriever_def)
  from uninitialized_retriever [OF init] init show ?thesis
    by blast
qed

section \<open>Properties of the context builder\<close>

lemma context_loop_parts:
  "context_loop i docs acc = Inr ps \<Longrightarrow>
     \<exists>qs. ps = acc @ qs \<and> length qs = length docs \<and>
          (\<forall>k<length docs. context_part (i + k) (docs ! k) = Inr (qs ! k))"
proof (induction docs arbitrary: i acc)
  case Nil
  then show ?case by simp
next
  case (Cons d docs)
  from Cons.prems obtain p where p: "context_part i d = Inr p"
    and rest: "context_loop (Suc i) docs (acc @ [p]) = Inr ps"
    by (auto split: sum.splits)
  from Cons.IH [OF rest] obtain qs where qs: "ps = (acc @ [p]) @ qs" "length qs = length docs"
    "\<forall>k<length docs. context_part (Suc i + k) (docs ! k) = Inr (qs ! k)" by blast
  have "\<forall>k<length (d # docs). context_part (i + k) ((d # docs) ! k) = Inr ((p # qs) ! k)"
  proof (intro allI impI)
    fix k assume "k < length (d # docs)"
    then show "context_part (i + k) ((d # docs) ! k) = Inr ((p # qs) ! k)"
      using p qs(3) by (cases k) auto
  qed
  with qs(1,2) show ?case by (intro exI [of _ "p # qs"]) simp
qed

lemma context_loop_succeeds:
  "\<forall>d\<in>set docs. content d \<noteq> None \<Longrightarrow> \<exists>ps. context_loop i docs acc = Inr ps"
  by (induction docs arbitrary: i acc) (auto simp: context_part_def split: sum.splits option.splits)




lemma format_2f_zero: "format_2f 0 = ''0.00''"
  by (simp add: format_2f_def round_half_even_def str_nat.simps digit_def)




lemma format_loop_fields:
  assumes "format_loop r d0 is acc = Inr docs"
      and "\<forall>d\<in>set acc. similarity d = None \<and> content d \<noteq> None \<and> distance d \<noteq> None"
  shows "\<forall>d\<in>set docs. similarity d = None \<and> content d \<noteq> None \<and> distance d \<noteq> None"
  using assms
proof (induction "is" arbitrary: acc)
  case Nil
  then show ?case by simp
next
  case (Cons i "is")
  from Cons.prems(1) obtain doc where doc: "format_doc r d0 i = Inr doc"
    and rest: "format_loop r d0 is (acc @ [doc]) = Inr docs"
    by (auto split: sum.splits)
  from doc have "similarity doc = None \<and> content doc \<noteq> None \<and> distance doc \<noteq> None"
    by (auto simp: format_doc_def split: sum.splits)
  with Cons.prems(2) have "\<forall>d\<in>set (acc @ [doc]). similarity d = None \<and> content d \<noteq> None \<and> distance d \<noteq> None"
    by simp
  from Cons.IH [OF rest this] show ?case .
qed

lemma retrieve_fields:
  assumes "retrieve db em self q n_results = Inr docs"
  shows "\<forall>d\<in>set docs. similarity d = None \<and> content d \<noteq> None \<and> distance d \<noteq> None"
proof (cases "collection self")
  case None
  with assms show ?thesis by (simp add: retrieve_def)
next
  case (Some c)
  show ?thesis
  proof (cases "retrieve_try db em c q n_results")
    case (Inl e)
    with assms Some show ?thesis by (simp add: retrieve_def)
  next
    case (Inr ds)
    with assms Some have eq: "ds = docs" by (simp add: retrieve_def)
    show ?thesis
    proof (cases "docs = []")
      case True then show ?thesis by simp
    next
      case False
      with Inr eq obtain r where f: "format_results r = Inr docs"
        by (auto simp: retrieve_try_def split: sum.splits if_splits)
      with False obtain d0 where "format_loop r d0 [0..<length d0] [] = Inr docs"
        by (auto simp: format_results_def split: option.splits list.splits if_splits)
      from format_loop_fields [OF this] show ?thesis by simp
    qed
  qed
qed

lemma context_part_default:
  assumes "similarity d = None" "content d = Some c"
  shows "context_part i d =
     Inr (''Document '' @ str_nat i @ '' (Relevance: 0.00, Source: '' @
          str_mval (case map_of (case metadata d of None \<Rightarrow> [] | Some m \<Rightarrow> m) ''source'' of
                      None \<Rightarrow> MStr ''Unknown'' | Some v \<Rightarrow> v) @
          ''):'' @ [CHR 0x0A] @ c @ [CHR 0x0A])"
  using assms by (simp add: context_part_def format_2f_zero)

lemma stub_retrieve_two:
  "retrieve stub_db stub_em stub_retriever ''heart exercise'' 2 =
     Inr [\<lparr>content = Some ''Cardio strengthens the heart.'',
            metadata = Some [(''source'', MStr ''cardio.md'')],
            similarity = None, distance = Some (Some (1 / 4))\<rparr>,
          \<lparr>content = Some ''Strength training builds muscle.'',
            metadata = Some [(''source'', MStr ''strength.md'')],
            similarity = None, distance = Some (Some (1 / 2))\<rparr>]"
  by (simp add: retrieve_def retrieve_try_def stub_db_def stub_em_def stub_retriever_def
        stub_store_def format_results_def format_doc_def index_def upt_rec)

text \<open>
  Claim C10. A dictionary produced by \<open>retrieve\<close> has the key \<open>distance\<close> and no key
  \<open>similarity\<close>; \<open>_build_context\<close> therefore reads the default \<open>0\<close> and prints the
  relevance of every such result as \<open>0.00\<close>, whatever distance the store returned.
\<close>

theorem retrieved_relevance_zero:
  assumes "retrieve db em self q n_results = Inr docs" and "k < length docs"
  shows "similarity (docs ! k) = None \<and> (\<exists>d. distance (docs ! k) = Some d) \<and>
         (\<exists>c. content (docs ! k) = Some c \<and>
            context_part (Suc k) (docs ! k) =
              Inr (''Document '' @ str_nat (Suc k) @ '' (Relevance: 0.00, Source: '' @
                   str_mval (case map_of (case metadata (docs ! k) of None \<Rightarrow> [] | Some m \<Rightarrow> m)
                                   ''source'' of
                               None \<Rightarrow> MStr ''Unknown'' | Some v \<Rightarrow> v) @
                   ''):'' @ [CHR 0x0A] @ c @ [CHR 0x0A])) \<and>
         (\<exists>parts. build_context docs = Inr (join_newline parts) \<and> length parts = length docs \<and>
            context_part (Suc k) (docs ! k) = Inr (parts ! k))"
proof -
  from retrieve_fields [OF assms(1)] assms(2)
  have s: "similarity (docs ! k) = None" and "content (docs ! k) \<noteq> None"
    and "distance (docs ! k) \<noteq> None"
    and all: "\<forall>d\<in>set docs. content d \<noteq> None"
    by auto
  then obtain c d where c: "content (docs ! k) = Some c" and d: "distance (docs ! k) = Some d"
    by auto
  obtain ps where ps: "context_loop 1 docs [] = Inr ps"
    using context_loop_succeeds [OF all] by blast
  from context_loop_parts [OF ps] assms(2)
  have "length ps = length docs" "context_part (Suc k) (docs ! k) = Inr (ps ! k)"
    by auto
  moreover have "build_context docs = Inr (join_newline ps)"
    using ps assms(2) by (auto simp: build_context_def)
  ultimately show ?thesis
    using s c d context_part_default [OF s c] by blast
qed

theorem retrieved_relevance_zero_witness:
  "retrieve stub_db stub_em stub_retriever ''heart exercise'' 2 =
     Inr [\<lparr>content = Some ''Cardio strengthens the heart.'',
            metadata = Some [(''source'', MStr ''cardio.md'')],
            similarity = None, distance = Some (Some (1 / 4))\<rparr>,
          \<lparr>content = Some ''Strength training builds muscle.'',
            metadata = Some [(''source'', MStr ''strength.md'')],
            similarity = None, distance = Some (Some (1 / 2))\<rparr>] \<and>
   context_part 2 \<lparr>content = Some ''Strength training builds muscle.'',
            metadata = Some [(''source'', MStr ''strength.md'')],
            similarity = None, distance = Some (Some (1 / 2))\<rparr> =
     Inr (''Document 2 (Relevance: 0.00, Source: strength.md):'' @ [CHR 0x0A] @
          ''Strength training builds muscle.'' @ [CHR 0x0A])"
  using retrieved_relevance_zero [OF stub_retrieve_two, of 1] stub_retrieve_two
  by (simp add: str_nat.simps digit_def numeral_2_eq_2)

end
